theory Spec2Isabelle
  imports Complex_Main "HOL-Library.Word"
begin

section \<open>Snowmass monitor: visual change detection, baselines and notification throttle\<close>

text \<open>
  A shallow embedding of \<^verbatim>\<open>src/api/snowmass-monitor.js\<close>. Buffers are lists of bytes,
  counters are natural numbers, and the two quotients the classifier computes are JavaScript
  numbers: a rational, or one of the special values a division by zero produces.
\<close>

subsection \<open>JavaScript numbers as far as the classifier needs them\<close>

type_synonym byte = "8 word"
type_synonym buffer = "byte list"

text \<open>
  The counters are non-negative integers far below \<open>2^53\<close>, so \<open>a / b\<close> is the exact
  quotient rounded to a double when \<open>b\<close> is not zero, \<open>NaN\<close> for \<open>0 / 0\<close> and
  \<open>Infinity\<close> for a positive numerator over zero. The rounding to a double is left out:
  the quotient is kept as a rational.
\<close>

datatype jsnum = NaN | Infinity | Num rat

definition js_div :: "nat \<Rightarrow> nat \<Rightarrow> jsnum" where
  "js_div a b = (if b = 0 then (if a = 0 then NaN else Infinity) else Num (of_nat a / of_nat b))"

fun js_times :: "jsnum \<Rightarrow> rat \<Rightarrow> jsnum" where
  "js_times NaN k = NaN"
| "js_times Infinity k = Infinity"
| "js_times (Num q) k = Num (q * k)"

text \<open>\<open>x > k\<close>: every comparison with \<open>NaN\<close> is false.\<close>

fun js_gt :: "jsnum \<Rightarrow> rat \<Rightarrow> bool" where
  "js_gt NaN k = False"
| "js_gt Infinity k = True"
| "js_gt (Num q) k = (k < q)"

text \<open>
  \<open>x.toFixed(3)\<close> is a string: \<^verbatim>\<open>"NaN"\<close>, \<^verbatim>\<open>"Infinity"\<close>, or the decimal with three
  fraction digits nearest to \<open>x\<close> (the larger one on a tie). The string is represented by the
  number it spells; \<open>x\<close> is never negative here.
\<close>

datatype fixed3 = Fixed_NaN | Fixed_Infinity | Fixed rat

fun toFixed3 :: "jsnum \<Rightarrow> fixed3" where
  "toFixed3 NaN = Fixed_NaN"
| "toFixed3 Infinity = Fixed_Infinity"
| "toFixed3 (Num q) = Fixed (of_int \<lfloor>q * 1000 + 1 / 2\<rfloor> / 1000)"

subsection \<open>Pixel classification (performVisualComparison, loop body)\<close>

type_synonym rgb = "int \<times> int \<times> int"

text \<open>The three colour bytes of the pixel that starts at index \<open>i\<close>, read as numbers.\<close>

definition pixelAt :: "buffer \<Rightarrow> nat \<Rightarrow> rgb" where
  "pixelAt buf i = (uint (buf ! i), uint (buf ! (i + 1)), uint (buf ! (i + 2)))"

text \<open>
  \<open>colorDiff\<close> is the square root of this sum of squares. The sum is an integer, the
  square root of 900 is exactly 30 and \<open>Math.sqrt\<close> is monotone, so \<open>colorDiff > 30\<close>
  holds exactly when the sum exceeds 900.
\<close>

fun colorDiffSq :: "rgb \<Rightarrow> rgb \<Rightarrow> int" where
  "colorDiffSq (currentR, currentG, currentB) (baselineR, baselineG, baselineB) =
     (currentR - baselineR)\<^sup>2 + (currentG - baselineG)\<^sup>2 + (currentB - baselineB)\<^sup>2"

definition colorDiffExceeds30 :: "rgb \<Rightarrow> rgb \<Rightarrow> bool" where
  "colorDiffExceeds30 current baseline = (900 < colorDiffSq current baseline)"

fun isDateHighlight :: "rgb \<Rightarrow> bool" where
  "isDateHighlight (r, g, b) =
     ((r > 200 \<and> g > 200 \<and> b > 240) \<or>
      (r > 150 \<and> g > 170 \<and> b > 200) \<or>
      (\<bar>r - g\<bar> < 20 \<and> \<bar>g - b\<bar> < 20 \<and> r > 180))"

fun isAvailable :: "rgb \<Rightarrow> bool" where
  "isAvailable (r, g, b) =
     ((r \<ge> 215 \<and> r \<le> 240 \<and>
       g \<ge> 215 \<and> g \<le> 240 \<and>
       b \<ge> 210 \<and> b \<le> 235 \<and>
       \<bar>r - g\<bar> < 15 \<and> \<bar>g - b\<bar> < 15) \<or>
      (r \<ge> 210 \<and> r \<le> 235 \<and>
       g \<ge> 205 \<and> g \<le> 230 \<and>
       b \<ge> 190 \<and> b \<le> 220 \<and>
       r > b + 10))"

fun isBackground :: "rgb \<Rightarrow> bool" where
  "isBackground (r, g, b) = (r > 240 \<and> g > 240 \<and> b > 240)"

record counters =
  totalPixels :: nat
  changedPixels :: nat
  availabilityIncrease :: nat
  dateHighlightChanges :: nat
  nonAvailabilityChanges :: nat

definition zeroCounters :: counters where
  "zeroCounters = \<lparr>totalPixels = 0, changedPixels = 0, availabilityIncrease = 0,
     dateHighlightChanges = 0, nonAvailabilityChanges = 0\<rparr>"

text \<open>
  What one pixel does to the counters, once it is known to be a whole pixel of the common
  prefix: the body of \<^verbatim>\<open>if (i + 3 < minLength)\<close>.
\<close>

definition classifyPixel :: "rgb \<Rightarrow> rgb \<Rightarrow> counters \<Rightarrow> counters" where
  "classifyPixel current baseline c =
     (let c1 = c\<lparr>totalPixels := totalPixels c + 1\<rparr> in
      if colorDiffExceeds30 current baseline then
        if isDateHighlight current \<or> isDateHighlight baseline then
          c1\<lparr>dateHighlightChanges := dateHighlightChanges c1 + 1\<rparr>
        else
          (let c2 = c1\<lparr>changedPixels := changedPixels c1 + 1\<rparr> in
           if isAvailable current \<and> \<not> isAvailable baseline \<and> \<not> isBackground baseline then
             c2\<lparr>availabilityIncrease := availabilityIncrease c2 + 1\<rparr>
           else if \<not> isAvailable current \<and> \<not> isAvailable baseline then
             c2\<lparr>nonAvailabilityChanges := nonAvailabilityChanges c2 + 1\<rparr>
           else c2)
      else c1)"

text \<open>
  The loop \<^verbatim>\<open>for (let i = 0; i < minLength; i += 4)\<close>. Inside the guard every index read
  is below \<open>minLength\<close>, hence inside both buffers.
\<close>

function compareLoop :: "buffer \<Rightarrow> buffer \<Rightarrow> nat \<Rightarrow> nat \<Rightarrow> counters \<Rightarrow> counters" where
  "compareLoop baselineBuffer currentBuffer minLength i c =
     (if i < minLength then
        compareLoop baselineBuffer currentBuffer minLength (i + 4)
          (if i + 3 < minLength
           then classifyPixel (pixelAt currentBuffer i) (pixelAt baselineBuffer i) c
           else c)
      else c)"
  by pat_completeness auto
termination
  by (relation "measure (\<lambda>(baselineBuffer, currentBuffer, minLength, i, c). minLength - i)") auto

declare compareLoop.simps [simp del]

record visual_result = counters +
  changePercentage :: fixed3
  availabilityScore :: fixed3
  significantChange :: bool
  likelyNewAvailability :: bool

definition performVisualComparison :: "buffer \<Rightarrow> buffer \<Rightarrow> visual_result" where
  "performVisualComparison baselineBuffer currentBuffer =
     (let minLength = min (length baselineBuffer) (length currentBuffer);
          c = compareLoop baselineBuffer currentBuffer minLength 0 zeroCounters;
          changePct = js_times (js_div (changedPixels c) (totalPixels c)) 100;
          availScore = js_times (js_div (availabilityIncrease c) (totalPixels c)) 100
      in counters.extend c
           \<lparr>changePercentage = toFixed3 changePct,
            availabilityScore = toFixed3 availScore,
            significantChange = js_gt changePct 2,
            likelyNewAvailability = (availabilityIncrease c > 0 \<and> js_gt availScore (1 / 100))\<rparr>)"

text \<open>
  For stating what the counters count: the indices at which the loop finds a whole pixel of
  the common prefix, and the two conditions of the loop body at such an index.
\<close>

definition pixelStarts :: "nat \<Rightarrow> nat list" where
  "pixelStarts minLength = map (\<lambda>j. 4 * j) [0..<minLength div 4]"

definition changedAt :: "buffer \<Rightarrow> buffer \<Rightarrow> nat \<Rightarrow> bool" where
  "changedAt baselineBuffer currentBuffer i =
     colorDiffExceeds30 (pixelAt currentBuffer i) (pixelAt baselineBuffer i)"

definition highlightAt :: "buffer \<Rightarrow> buffer \<Rightarrow> nat \<Rightarrow> bool" where
  "highlightAt baselineBuffer currentBuffer i =
     (isDateHighlight (pixelAt currentBuffer i) \<or> isDateHighlight (pixelAt baselineBuffer i))"

subsection \<open>Baseline store (saveBaseline, compareWithBaseline)\<close>

record monthData =
  key :: string
  name :: string
  month :: nat
  year :: nat

text \<open>
  The object \<^verbatim>\<open>compareWithBaseline\<close> returns. With a baseline it carries the classifier's
  result (\<^verbatim>\<open>...comparison\<close>); without one it carries a message instead.
\<close>

record comparison =
  hasBaseline :: bool
  shouldNotify :: bool
  shouldUpdateBaseline :: bool
  metrics :: "visual_result option"
  message :: "string option"

datatype fetch_result = ResponseOk | ResponseNotOk | NetworkError

record notification =
  timestamp :: int
  type :: string

text \<open>
  What \<^verbatim>\<open>./tmp/notifications.json\<close> holds: nothing (reading raises), text that
  \<^verbatim>\<open>JSON.parse\<close> rejects, or the array of records that \<^verbatim>\<open>logNotification\<close> wrote.
\<close>

datatype log_file = NoFile | BadJson | Log "notification list"

text \<open>
  The persistent and outside state a run touches: the baseline files by period key, the
  trace of the writes \<^verbatim>\<open>saveBaseline\<close> made (oldest first), the notification log, and the
  trace of the webhook requests that got an answer (the period keys of the payload's
  \<^verbatim>\<open>changedMonths\<close>, and the answer). Creating the directories and writing a local file
  are taken to succeed.
\<close>

record world =
  baselines :: "string \<rightharpoonup> buffer"
  baselineWrites :: "(string \<times> buffer) list"
  notificationLog :: log_file
  webhookCalls :: "(string list \<times> fetch_result) list"

definition saveBaseline :: "world \<Rightarrow> string \<Rightarrow> buffer \<Rightarrow> world" where
  "saveBaseline w monthKey screenshot =
     w\<lparr>baselines := (baselines w)(monthKey \<mapsto> screenshot),
       baselineWrites := baselineWrites w @ [(monthKey, screenshot)]\<rparr>"

text \<open>The object built at lines 811 to 816 from the classifier's result.\<close>

definition comparisonOf :: "visual_result \<Rightarrow> comparison" where
  "comparisonOf r =
     \<lparr>hasBaseline = True,
      shouldNotify = (significantChange r \<and> likelyNewAvailability r),
      shouldUpdateBaseline = significantChange r,
      metrics = Some r,
      message = None\<rparr>"

definition compareWithBaseline :: "world \<Rightarrow> monthData \<Rightarrow> buffer \<Rightarrow> comparison \<times> world" where
  "compareWithBaseline w monthData currentScreenshot =
     (case baselines w (key monthData) of
        Some baselineBuffer \<Rightarrow>
          (comparisonOf (performVisualComparison baselineBuffer currentScreenshot), w)
      | None \<Rightarrow>
          (\<lparr>hasBaseline = False, shouldNotify = False, shouldUpdateBaseline = False,
            metrics = None,
            message = Some (''Baseline created for '' @ name monthData)\<rparr>,
           saveBaseline w (key monthData) currentScreenshot))"

subsection \<open>Notification throttle (checkNotificationLimit, logNotification)\<close>

definition MAX_DAILY_NOTIFICATIONS :: nat where
  "MAX_DAILY_NOTIFICATIONS = 2"

text \<open>
  Instants are milliseconds since the epoch. \<^verbatim>\<open>toDateString()\<close> names the local calendar day
  of an instant; it is represented by the number of that day, with \<open>zone t\<close> the offset of
  local time at \<open>t\<close>.
\<close>

definition toDateString :: "(int \<Rightarrow> int) \<Rightarrow> int \<Rightarrow> int" where
  "toDateString zone t = (t + zone t) div 86400000"

text \<open>The array the function works on after its inner \<^verbatim>\<open>try\<close>: empty when reading or parsing raised.\<close>

fun readNotificationLog :: "log_file \<Rightarrow> notification list" where
  "readNotificationLog NoFile = []"
| "readNotificationLog BadJson = []"
| "readNotificationLog (Log ns) = ns"

definition todayNotifications :: "(int \<Rightarrow> int) \<Rightarrow> int \<Rightarrow> notification list \<Rightarrow> notification list" where
  "todayNotifications zone now ns =
     filter (\<lambda>n. toDateString zone (timestamp n) = toDateString zone now) ns"

definition checkNotificationLimit :: "(int \<Rightarrow> int) \<Rightarrow> int \<Rightarrow> world \<Rightarrow> bool" where
  "checkNotificationLimit zone now w =
     (length (todayNotifications zone now (readNotificationLog (notificationLog w)))
        < MAX_DAILY_NOTIFICATIONS)"

definition logNotification :: "int \<Rightarrow> world \<Rightarrow> world" where
  "logNotification now w =
     (let pushed = readNotificationLog (notificationLog w)
                     @ [\<lparr>timestamp = now, type = ''availability_change''\<rparr>];
          sevenDaysAgo = now - 7 * 24 * 60 * 60 * 1000
      in w\<lparr>notificationLog := Log (filter (\<lambda>n. timestamp n > sevenDaysAgo) pushed)\<rparr>)"

subsection \<open>Orchestration (captureMonthWithRetry, runMonitor, sendWebhookNotification, handler)\<close>

text \<open>
  The browser is outside the program. \<^verbatim>\<open>captureMonth\<close> (loading the availability page,
  \<^verbatim>\<open>navigateToMonth\<close>, the screenshot) is a step on the state \<open>'p\<close> of the remote page that
  yields a screenshot or raises an error with a message.
\<close>

type_synonym 'p captureMonth = "'p \<Rightarrow> monthData \<Rightarrow> (string + buffer) \<times> 'p"

definition maxRetries :: nat where
  "maxRetries = 3"

text \<open>
  The retry loop from attempt number \<open>attempt\<close> on, with \<open>maxRetries\<close> at its default (the
  only call passes none). The wait between two attempts changes no state. The loop is entered
  at attempt 1, so its counter never exceeds \<open>maxRetries\<close>.
\<close>

function captureAttempts :: "'p captureMonth \<Rightarrow> 'p \<Rightarrow> monthData \<Rightarrow> nat \<Rightarrow> (string + buffer) \<times> 'p" where
  "captureAttempts capture page monthData attempt =
     (case capture page monthData of
        (Inr screenshot, page') \<Rightarrow> (Inr screenshot, page')
      | (Inl err, page') \<Rightarrow>
          if attempt < maxRetries
          then captureAttempts capture page' monthData (attempt + 1)
          else (Inl err, page'))"
  by pat_completeness auto
termination
  by (relation "measure (\<lambda>(capture, page, monthData, attempt). maxRetries - attempt)") auto

declare captureAttempts.simps [simp del]

definition captureMonthWithRetry :: "'p captureMonth \<Rightarrow> 'p \<Rightarrow> monthData \<Rightarrow> (string + buffer) \<times> 'p" where
  "captureMonthWithRetry capture page monthData = captureAttempts capture page monthData 1"

text \<open>
  One entry of \<^verbatim>\<open>results\<close>: \<^verbatim>\<open>{month, name, ...comparison}\<close> for a period that was
  processed, \<^verbatim>\<open>{month, name, error, shouldNotify: false}\<close> for one whose processing raised.
\<close>

datatype month_result =
    Processed string string comparison
  | Failed string string string

fun resultMonth :: "month_result \<Rightarrow> string" where
  "resultMonth (Processed k n c) = k"
| "resultMonth (Failed k n err) = k"

fun resultShouldNotify :: "month_result \<Rightarrow> bool" where
  "resultShouldNotify (Processed k n c) = shouldNotify c"
| "resultShouldNotify (Failed k n err) = False"

fun isErrorResult :: "month_result \<Rightarrow> bool" where
  "isErrorResult (Processed k n c) = False"
| "isErrorResult (Failed k n err) = True"

text \<open>The body of the loop over the periods, with its \<^verbatim>\<open>try\<close> and \<^verbatim>\<open>catch\<close>.\<close>

definition processMonth :: "'p captureMonth \<Rightarrow> world \<Rightarrow> 'p \<Rightarrow> monthData \<Rightarrow> month_result \<times> world \<times> 'p" where
  "processMonth capture w page m =
     (case captureMonthWithRetry capture page m of
        (Inl err, page') \<Rightarrow> (Failed (key m) (name m) err, w, page')
      | (Inr screenshot, page') \<Rightarrow>
          (case compareWithBaseline w m screenshot of
             (comparison, w1) \<Rightarrow>
               (Processed (key m) (name m) comparison,
                if shouldUpdateBaseline comparison then saveBaseline w1 (key m) screenshot else w1,
                page')))"

fun processMonths :: "'p captureMonth \<Rightarrow> world \<Rightarrow> 'p \<Rightarrow> monthData list \<Rightarrow> month_result list \<times> world \<times> 'p" where
  "processMonths capture w page [] = ([], w, page)"
| "processMonths capture w page (m # ms) =
     (case processMonth capture w page m of
        (r, w1, page1) \<Rightarrow>
          (case processMonths capture w1 page1 ms of
             (rs, w2, page2) \<Rightarrow> (r # rs, w2, page2)))"

text \<open>
  What \<^verbatim>\<open>runMonitor\<close> returns, without the figures of \<^verbatim>\<open>summary\<close> and \<^verbatim>\<open>performance\<close>:
  they are computed from \<^verbatim>\<open>results\<close> and decide nothing.
\<close>

record run_result =
  totalMonths :: nat
  changedMonths :: "month_result list"
  allResults :: "month_result list"

text \<open>
  Everything outside the program that one request meets: the credentials of the process
  environment, launching the browser and logging in (a page, or an error that aborts the run),
  \<^verbatim>\<open>captureMonth\<close>, the periods \<^verbatim>\<open>getMonthsToCheck()\<close> computes from the clock, the local
  time zone, the instants at which the throttle is read and the notification is logged, and
  the answer of the webhook's server.
\<close>

record 'p environment =
  envUsername :: "string option"
  envPassword :: "string option"
  doLogin :: "string \<Rightarrow> string \<Rightarrow> string + 'p"
  captureMonth :: "'p captureMonth"
  getMonthsToCheck :: "monthData list"
  zone :: "int \<Rightarrow> int"
  checkTime :: int
  logTime :: int
  fetch :: fetch_result

definition runMonitor :: "'p environment \<Rightarrow> string \<Rightarrow> string \<Rightarrow> world \<Rightarrow> (string + run_result) \<times> world" where
  "runMonitor env username password w =
     (case doLogin env username password of
        Inl err \<Rightarrow> (Inl err, w)
      | Inr page \<Rightarrow>
          (case processMonths (captureMonth env) w page (getMonthsToCheck env) of
             (results, w', page') \<Rightarrow>
               (Inr \<lparr>totalMonths = length results,
                     changedMonths = filter resultShouldNotify results,
                     allResults = results\<rparr>,
                w')))"

text \<open>
  \<^verbatim>\<open>sendWebhookNotification\<close> returns nothing; what it did shows in the world only. A request
  that got an answer is appended to \<open>webhookCalls\<close>; the notification is logged after an
  answer with \<^verbatim>\<open>response.ok\<close>.
\<close>

definition sendWebhookNotification :: "'p environment \<Rightarrow> run_result \<Rightarrow> world \<Rightarrow> world" where
  "sendWebhookNotification env results w =
     (if checkNotificationLimit (zone env) (checkTime env) w then
        (case fetch env of
           ResponseOk \<Rightarrow>
             logNotification (logTime env)
               (w\<lparr>webhookCalls := webhookCalls w @ [(map resultMonth (changedMonths results), ResponseOk)]\<rparr>)
         | ResponseNotOk \<Rightarrow>
             w\<lparr>webhookCalls := webhookCalls w @ [(map resultMonth (changedMonths results), ResponseNotOk)]\<rparr>
         | NetworkError \<Rightarrow> w)
      else w)"

text \<open>The webhook requests answered with \<^verbatim>\<open>response.ok\<close>: the notifications delivered.\<close>

definition delivered :: "world \<Rightarrow> nat" where
  "delivered w = length (filter (\<lambda>call. snd call = ResponseOk) (webhookCalls w))"

record request =
  reqMethod :: string
  snowmassUsername :: "string option"
  snowmassPassword :: "string option"

record success_body =
  success :: bool
  monthsChecked :: nat
  changedMonthsCount :: nat
  results :: "month_result list"
  webhookSent :: bool

datatype response =
    Healthy
  | MethodNotAllowed
  | MissingCredentials
  | MonitorSuccess success_body
  | MonitorError string

text \<open>A field of the body that is absent takes the value of the process environment.\<close>

fun withDefault :: "string option \<Rightarrow> string option \<Rightarrow> string" where
  "withDefault (Some v) d = v"
| "withDefault None (Some v) = v"
| "withDefault None None = []"

definition handler :: "'p environment \<Rightarrow> request \<Rightarrow> world \<Rightarrow> response \<times> world" where
  "handler env req w =
     (if reqMethod req = ''GET'' then (Healthy, w)
      else if reqMethod req \<noteq> ''POST'' then (MethodNotAllowed, w)
      else
        (let username = withDefault (snowmassUsername req) (envUsername env);
             password = withDefault (snowmassPassword req) (envPassword env)
         in if username = [] \<or> password = [] then (MissingCredentials, w)
            else
              (case runMonitor env username password w of
                 (Inl err, w1) \<Rightarrow> (MonitorError err, w1)
               | (Inr run, w1) \<Rightarrow>
                   (MonitorSuccess
                      \<lparr>success = True,
                       monthsChecked = totalMonths run,
                       changedMonthsCount = length (changedMonths run),
                       results = allResults run,
                       webhookSent = (length (changedMonths run) > 0)\<rparr>,
                    if length (changedMonths run) > 0
                    then sendWebhookNotification env run w1
                    else w1))))"

subsection \<open>Navigation: text-extraction confidence (validateMonthWithTextExtraction)\<close>

text \<open>
  A JavaScript string is a sequence of 16-bit code units, here numbers; \<open>units\<close> gives the
  code units of an ASCII literal of the source. \<^verbatim>\<open>toLowerCase\<close> and the \<^verbatim>\<open>i\<close> flag of a regular
  expression are modelled on the letters A to Z, the only letters of a month name; every other
  code unit is left as it is and matches itself only.
\<close>

type_synonym jsstring = "nat list"

definition units :: "string \<Rightarrow> jsstring" where
  "units s = map of_char s"

definition lowerChar :: "nat \<Rightarrow> nat" where
  "lowerChar c = (if 65 \<le> c \<and> c \<le> 90 then c + 32 else c)"

definition toLowerCase :: "jsstring \<Rightarrow> jsstring" where
  "toLowerCase s = map lowerChar s"

text \<open>
  \<^verbatim>\<open>\s\<close> matches the white space and the line terminators of JavaScript: tab, line feed,
  vertical tab, form feed, carriage return, space, U+00A0, U+1680, U+2000 to U+200A, U+2028,
  U+2029, U+202F, U+205F, U+3000 and U+FEFF.
\<close>

definition isSpace :: "nat \<Rightarrow> bool" where
  "isSpace c =
     ((9 \<le> c \<and> c \<le> 13) \<or> c = 32 \<or> c = 160 \<or> c = 5760 \<or> (8192 \<le> c \<and> c \<le> 8202) \<or>
      c = 8232 \<or> c = 8233 \<or> c = 8239 \<or> c = 8287 \<or> c = 12288 \<or> c = 65279)"

fun startsWith :: "jsstring \<Rightarrow> jsstring \<Rightarrow> bool" where
  "startsWith s [] = True"
| "startsWith [] (p # ps) = False"
| "startsWith (c # cs) (p # ps) = (c = p \<and> startsWith cs ps)"

text \<open>\<^verbatim>\<open>s.includes(p)\<close>: \<open>p\<close> occurs somewhere in \<open>s\<close>.\<close>

fun includesStr :: "jsstring \<Rightarrow> jsstring \<Rightarrow> bool" where
  "includesStr [] p = (p = [])"
| "includesStr (c # cs) p = (startsWith (c # cs) p \<or> includesStr cs p)"

text \<open>\<^verbatim>\<open>n.toString()\<close> of a non-negative integer: its decimal digits.\<close>

fun toString :: "nat \<Rightarrow> jsstring" where
  "toString n =
     (if n < 10 then [48 + n]
      else toString (n div 10) @ [48 + n mod 10])"

declare toString.simps [simp del]

text \<open>
  The four regular expressions are a literal, optional white space or a comma, and a second
  literal. Each piece consumes a prefix of the text and returns the rest. The literal after
  the white space starts with a letter or a digit, so taking all the white space at once
  finds every match that backtracking would. The month is a month name at every call and is
  matched as a literal.
\<close>

fun literalCI :: "jsstring \<Rightarrow> jsstring \<Rightarrow> jsstring option" where
  "literalCI [] s = Some s"
| "literalCI (p # ps) [] = None"
| "literalCI (p # ps) (c # cs) = (if lowerChar p = lowerChar c then literalCI ps cs else None)"

fun spaces1 :: "jsstring \<Rightarrow> jsstring option" where
  "spaces1 [] = None"
| "spaces1 (c # cs) = (if isSpace c then Some (dropWhile isSpace cs) else None)"

definition spaces0 :: "jsstring \<Rightarrow> jsstring option" where
  "spaces0 s = Some (dropWhile isSpace s)"

fun optionalComma :: "jsstring \<Rightarrow> jsstring option" where
  "optionalComma [] = Some []"
| "optionalComma (c # cs) = (if c = 44 then Some cs else Some (c # cs))"

text \<open>\<^verbatim>\<open>pattern.test(text)\<close>: the pattern matches at some position.\<close>

fun test :: "(jsstring \<Rightarrow> jsstring option) \<Rightarrow> jsstring \<Rightarrow> bool" where
  "test pattern [] = (pattern [] \<noteq> None)"
| "test pattern (c # cs) = (pattern (c # cs) \<noteq> None \<or> test pattern cs)"

definition monthYearPatterns :: "jsstring \<Rightarrow> nat \<Rightarrow> (jsstring \<Rightarrow> jsstring option) list" where
  "monthYearPatterns expectedMonth expectedYear =
     [\<lambda>s. Option.bind (Option.bind (literalCI expectedMonth s) spaces1) (literalCI (toString expectedYear)),
      \<lambda>s. Option.bind (Option.bind (Option.bind (literalCI expectedMonth s) optionalComma) spaces0)
             (literalCI (toString expectedYear)),
      \<lambda>s. Option.bind (Option.bind (literalCI (toString expectedYear) s) spaces1) (literalCI expectedMonth),
      \<lambda>s. Option.bind (Option.bind (literalCI (take 3 expectedMonth) s) spaces1)
             (literalCI (toString expectedYear))]"

definition monthNames :: "jsstring list" where
  "monthNames = map units [''january'', ''february'', ''march'', ''april'', ''may'', ''june'',
                 ''july'', ''august'', ''september'', ''october'', ''november'', ''december'']"

definition calendarSelectors :: "string list" where
  "calendarSelectors = [''table'', ''.calendar'', ''.datepicker'', ''.ui-datepicker'',
     ''[class*=\"calendar\"]'', ''[class*=\"datepicker\"]'', ''main'', ''body'']"

text \<open>
  The loop over the selectors keeps the longest text. \<open>textContent selector\<close> is the text the
  page gives for the selector, \<open>None\<close> when the lookup raises or finds no text.
\<close>

fun extractText :: "(string \<Rightarrow> jsstring option) \<Rightarrow> string list \<Rightarrow> jsstring \<times> string \<Rightarrow> jsstring \<times> string" where
  "extractText textContent [] (allText, workingSelector) = (allText, workingSelector)"
| "extractText textContent (selector # rest) (allText, workingSelector) =
     extractText textContent rest
       (case textContent selector of
          None \<Rightarrow> (allText, workingSelector)
        | Some text \<Rightarrow>
            if text \<noteq> [] \<and> length text > length allText then (text, selector)
            else (allText, workingSelector))"

definition hasExpectedMonth :: "jsstring \<Rightarrow> jsstring \<Rightarrow> bool" where
  "hasExpectedMonth allText expectedMonth =
     (expectedMonth = units ''any'' \<or> includesStr (toLowerCase allText) (toLowerCase expectedMonth))"

definition hasExpectedYear :: "jsstring \<Rightarrow> nat \<Rightarrow> bool" where
  "hasExpectedYear allText expectedYear = includesStr allText (toString expectedYear)"

definition otherMonths :: "jsstring \<Rightarrow> jsstring \<Rightarrow> jsstring list" where
  "otherMonths allText expectedMonth =
     (if expectedMonth = units ''any'' then []
      else filter (\<lambda>m. m \<noteq> toLowerCase expectedMonth \<and> includesStr (toLowerCase allText) m) monthNames)"

definition hasExactPattern :: "jsstring \<Rightarrow> jsstring \<Rightarrow> nat \<Rightarrow> bool" where
  "hasExactPattern allText expectedMonth expectedYear =
     (expectedMonth = units ''any'' \<or>
      list_ex (\<lambda>pattern. test pattern allText) (monthYearPatterns expectedMonth expectedYear))"

text \<open>
  The confidence, built up as the source does. The weights are decimal fractions; their sums
  are taken exactly here, where the source adds doubles.
\<close>

definition confidenceOf :: "bool \<Rightarrow> bool \<Rightarrow> bool \<Rightarrow> nat \<Rightarrow> rat" where
  "confidenceOf hasMonth hasYear hasPattern otherMonthsLength =
     (let c0 = 0;
          c1 = (if hasMonth then c0 + 0.4 else c0);
          c2 = (if hasYear then c1 + 0.3 else c1);
          c3 = (if hasPattern then c2 + 0.4 else c2);
          c4 = (if otherMonthsLength = 0 then c3 + 0.2 else c3);
          c5 = (if otherMonthsLength > 2 then c4 - 0.3 else c4)
      in min (max c5 0) 1.0)"

record text_validation =
  confidence :: rat
  detectedMonth :: jsstring
  detectedYear :: nat
  exactPattern :: bool
  otherMonthsFound :: nat
  extractedTextLength :: nat
  workingSelector :: string

definition validateMonthWithTextExtraction ::
    "(string \<Rightarrow> jsstring option) \<Rightarrow> jsstring \<Rightarrow> nat \<Rightarrow> text_validation" where
  "validateMonthWithTextExtraction textContent expectedMonth expectedYear =
     (case extractText textContent calendarSelectors ([], []) of
        (allText, selector) \<Rightarrow>
          \<lparr>confidence = confidenceOf (hasExpectedMonth allText expectedMonth)
                          (hasExpectedYear allText expectedYear)
                          (hasExactPattern allText expectedMonth expectedYear)
                          (length (otherMonths allText expectedMonth)),
           detectedMonth = (if hasExpectedMonth allText expectedMonth then expectedMonth
                            else units ''not_found''),
           detectedYear = (if hasExpectedYear allText expectedYear then expectedYear else 0),
           exactPattern = hasExactPattern allText expectedMonth expectedYear,
           otherMonthsFound = length (otherMonths allText expectedMonth),
           extractedTextLength = length allText,
           workingSelector = selector\<rparr>)"

text \<open>
  The description of the confidence in the specification, to compare with the code: a sum of
  weights, clamped to the unit interval.
\<close>

definition weightedSum :: "bool \<Rightarrow> bool \<Rightarrow> bool \<Rightarrow> nat \<Rightarrow> rat" where
  "weightedSum hasMonth hasYear hasPattern otherMonthsLength =
     (if hasMonth then 0.4 else 0) + (if hasYear then 0.3 else 0) + (if hasPattern then 0.4 else 0)
     + (if otherMonthsLength = 0 then 0.2 else 0) - (if otherMonthsLength > 2 then 0.3 else 0)"

definition clamp01 :: "rat \<Rightarrow> rat" where
  "clamp01 q = (if q < 0 then 0 else if q > 1 then 1 else q)"

section \<open>Properties of the classifier\<close>

subsection \<open>The loop's counters\<close>

lemma totalPixels_classifyPixel:
  "totalPixels (classifyPixel current baseline c) = totalPixels c + 1"
  by (simp add: classifyPixel_def Let_def)

lemma quarter_step:
  fixes m i :: nat
  assumes "i + 3 < m"
  shows "(m - i) div 4 = Suc ((m - (i + 4)) div 4)"
proof -
  from assms have "i + 4 \<le> m" by simp
  then obtain k where "m = i + 4 + k"
    using le_iff_add by blast
  then show ?thesis
    by simp
qed

lemma totalPixels_compareLoop:
  "totalPixels (compareLoop b cur m i c) = totalPixels c + (m - i) div 4"
proof (induction b cur m i c rule: compareLoop.induct)
  case (1 b cur m i c)
  show ?case
  proof (cases "i < m")
    case False
    then show ?thesis by (subst compareLoop.simps) simp
  next
    case True
    show ?thesis
    proof (cases "i + 3 < m")
      case whole: True
      have "(m - i) div 4 = Suc ((m - (i + 4)) div 4)"
        using whole by (rule quarter_step)
      with 1 [OF True] True whole show ?thesis
        by (subst compareLoop.simps) (simp add: totalPixels_classifyPixel)
    next
      case part: False
      have "(m - i) div 4 = 0" "(m - (i + 4)) div 4 = 0"
        using part by simp_all
      with 1 [OF True] True part show ?thesis
        by (subst compareLoop.simps) simp
    qed
  qed
qed

lemma classifyPixel_same:
  "changedPixels (classifyPixel p p c) = changedPixels c \<and>
   availabilityIncrease (classifyPixel p p c) = availabilityIncrease c"
  by (cases p) (simp add: classifyPixel_def colorDiffExceeds30_def Let_def)

lemma compareLoop_same:
  "cur = b \<Longrightarrow>
   changedPixels (compareLoop b cur m i c) = changedPixels c \<and>
   availabilityIncrease (compareLoop b cur m i c) = availabilityIncrease c"
proof (induction b cur m i c rule: compareLoop.induct)
  case (1 b cur m i c)
  show ?case
  proof (cases "i < m")
    case False
    then show ?thesis by (subst compareLoop.simps, subst (2) compareLoop.simps) simp
  next
    case True
    with 1 show ?thesis
      by (subst compareLoop.simps, subst (2) compareLoop.simps) (simp add: classifyPixel_same)
  qed
qed

text \<open>The fields of the result in terms of the loop's counters.\<close>

lemma performVisualComparison_fields:
  fixes baselineBuffer currentBuffer
  defines "c \<equiv> compareLoop baselineBuffer currentBuffer
                  (min (length baselineBuffer) (length currentBuffer)) 0 zeroCounters"
  shows "totalPixels (performVisualComparison baselineBuffer currentBuffer) = totalPixels c"
    and "changedPixels (performVisualComparison baselineBuffer currentBuffer) = changedPixels c"
    and "availabilityIncrease (performVisualComparison baselineBuffer currentBuffer) = availabilityIncrease c"
    and "dateHighlightChanges (performVisualComparison baselineBuffer currentBuffer) = dateHighlightChanges c"
    and "changePercentage (performVisualComparison baselineBuffer currentBuffer) =
           toFixed3 (js_times (js_div (changedPixels c) (totalPixels c)) 100)"
    and "availabilityScore (performVisualComparison baselineBuffer currentBuffer) =
           toFixed3 (js_times (js_div (availabilityIncrease c) (totalPixels c)) 100)"
    and "significantChange (performVisualComparison baselineBuffer currentBuffer) =
           js_gt (js_times (js_div (changedPixels c) (totalPixels c)) 100) 2"
    and "likelyNewAvailability (performVisualComparison baselineBuffer currentBuffer) =
           (availabilityIncrease c > 0 \<and>
            js_gt (js_times (js_div (availabilityIncrease c) (totalPixels c)) 100) (1 / 100))"
  by (simp_all add: performVisualComparison_def Let_def counters.extend_def c_def)

text \<open>Every whole pixel of the common prefix is sampled: \<open>totalPixels\<close> is a quarter of its length.\<close>

lemma totalPixels_performVisualComparison:
  "totalPixels (performVisualComparison baselineBuffer currentBuffer) =
     min (length baselineBuffer) (length currentBuffer) div 4"
  by (simp add: performVisualComparison_fields totalPixels_compareLoop zeroCounters_def)

lemma classifyPixel_highlight:
  assumes "colorDiffExceeds30 current baseline"
    and "isDateHighlight current \<or> isDateHighlight baseline"
  shows "classifyPixel current baseline c =
           c\<lparr>totalPixels := totalPixels c + 1, dateHighlightChanges := dateHighlightChanges c + 1\<rparr>"
  using assms by (simp add: classifyPixel_def Let_def)

lemma classifyPixel_counts:
  "changedPixels (classifyPixel current baseline c) =
     changedPixels c +
       (if colorDiffExceeds30 current baseline \<and> \<not> (isDateHighlight current \<or> isDateHighlight baseline)
        then 1 else 0)"
  "dateHighlightChanges (classifyPixel current baseline c) =
     dateHighlightChanges c +
       (if colorDiffExceeds30 current baseline \<and> (isDateHighlight current \<or> isDateHighlight baseline)
        then 1 else 0)"
  by (simp_all add: classifyPixel_def Let_def)

lemma starts_step:
  assumes "i + 3 < m"
  shows "map (\<lambda>j. i + 4 * j) [0..<(m - i) div 4] =
           i # map (\<lambda>j. (i + 4) + 4 * j) [0..<(m - (i + 4)) div 4]"
proof -
  have "(m - i) div 4 = Suc ((m - (i + 4)) div 4)"
    using assms by (rule quarter_step)
  then show ?thesis
    by (simp add: upt_conv_Cons map_Suc_upt [symmetric] del: upt_Suc)
qed

lemma compareLoop_counts:
  "changedPixels (compareLoop b cur m i c) =
     changedPixels c +
       length (filter (\<lambda>k. changedAt b cur k \<and> \<not> highlightAt b cur k)
                 (map (\<lambda>j. i + 4 * j) [0..<(m - i) div 4])) \<and>
   dateHighlightChanges (compareLoop b cur m i c) =
     dateHighlightChanges c +
       length (filter (\<lambda>k. changedAt b cur k \<and> highlightAt b cur k)
                 (map (\<lambda>j. i + 4 * j) [0..<(m - i) div 4]))"
proof (induction b cur m i c rule: compareLoop.induct)
  case (1 b cur m i c)
  show ?case
  proof (cases "i + 3 < m")
    case True
    then have lt: "i < m" by simp
    show ?thesis
      using 1 [OF lt] True lt
      by (subst compareLoop.simps, subst (2) compareLoop.simps)
         (simp add: starts_step classifyPixel_counts changedAt_def highlightAt_def)
  next
    case False
    then have z: "(m - i) div 4 = 0" by simp
    show ?thesis
    proof (cases "i < m")
      case True
      have "compareLoop b cur m i c = c"
        using True False by (simp add: compareLoop.simps)
      then show ?thesis using z by simp
    next
      case False
      then have "compareLoop b cur m i c = c"
        by (simp add: compareLoop.simps)
      then show ?thesis using z by simp
    qed
  qed
qed

subsection \<open>Highlight pixels\<close>

text \<open>
  C7. A pixel pair whose colour difference exceeds the threshold and one side of which matches
  a highlight band adds one to \<open>dateHighlightChanges\<close> and leaves \<open>changedPixels\<close> (and the two
  counters after it) alone, whatever the difference is. For whole buffers: \<open>changedPixels\<close>
  counts exactly the changed pixels with no highlight side, \<open>dateHighlightChanges\<close> exactly the
  changed pixels with one.
\<close>

theorem C7_highlight_pairs_excluded:
  "(colorDiffExceeds30 current baseline \<and> (isDateHighlight current \<or> isDateHighlight baseline) \<longrightarrow>
      classifyPixel current baseline c =
        c\<lparr>totalPixels := totalPixels c + 1, dateHighlightChanges := dateHighlightChanges c + 1\<rparr>) \<and>
   changedPixels (performVisualComparison baselineBuffer currentBuffer) =
     length (filter (\<lambda>i. changedAt baselineBuffer currentBuffer i \<and>
                          \<not> highlightAt baselineBuffer currentBuffer i)
               (pixelStarts (min (length baselineBuffer) (length currentBuffer)))) \<and>
   dateHighlightChanges (performVisualComparison baselineBuffer currentBuffer) =
     length (filter (\<lambda>i. changedAt baselineBuffer currentBuffer i \<and>
                          highlightAt baselineBuffer currentBuffer i)
               (pixelStarts (min (length baselineBuffer) (length currentBuffer))))"
proof -
  have counts: "changedPixels (performVisualComparison baselineBuffer currentBuffer) =
      length (filter (\<lambda>i. changedAt baselineBuffer currentBuffer i \<and>
                           \<not> highlightAt baselineBuffer currentBuffer i)
                (pixelStarts (min (length baselineBuffer) (length currentBuffer))))"
    "dateHighlightChanges (performVisualComparison baselineBuffer currentBuffer) =
      length (filter (\<lambda>i. changedAt baselineBuffer currentBuffer i \<and>
                           highlightAt baselineBuffer currentBuffer i)
                (pixelStarts (min (length baselineBuffer) (length currentBuffer))))"
    using compareLoop_counts [of baselineBuffer currentBuffer
        "min (length baselineBuffer) (length currentBuffer)" 0 zeroCounters]
    by (simp_all add: performVisualComparison_fields pixelStarts_def zeroCounters_def)
  show ?thesis
    using counts classifyPixel_highlight [of current baseline c] by blast
qed

text \<open>
  Witness for C7: white against dark blue differs by far more than the threshold, white is a
  highlight colour, and the pair only moves the discard counter; as a one-pixel image it leaves
  \<open>changedPixels\<close> at 0.
\<close>

theorem C7_highlight_pairs_excluded_witness:
  "colorDiffExceeds30 (255, 255, 255) (0, 0, 90) \<and>
   (isDateHighlight (255, 255, 255) \<or> isDateHighlight (0, 0, 90)) \<and>
   classifyPixel (255, 255, 255) (0, 0, 90) zeroCounters =
     zeroCounters\<lparr>totalPixels := 1, dateHighlightChanges := 1\<rparr> \<and>
   changedPixels (performVisualComparison [0, 0, 90, 255] [255, 255, 255, 255]) = 0 \<and>
   dateHighlightChanges (performVisualComparison [0, 0, 90, 255] [255, 255, 255, 255]) = 1"
  using C7_highlight_pairs_excluded [of "(255, 255, 255)" "(0, 0, 90)" zeroCounters
      "[0, 0, 90, 255]" "[255, 255, 255, 255]"]
  by (simp add: colorDiffExceeds30_def zeroCounters_def pixelStarts_def changedAt_def
      highlightAt_def pixelAt_def)

subsection \<open>Degenerate buffers\<close>

lemma compareLoop_short:
  "minLength < 4 \<Longrightarrow> compareLoop b cur minLength 0 c = c"
  by (simp add: compareLoop.simps)

text \<open>
  C9. The comparison is a total function: it returns for every pair of buffers. When the
  shorter buffer has fewer than 4 bytes no pixel is sampled, both quotients are \<open>0 / 0\<close>, and
  the result has \<open>significantChange = false\<close> and \<open>likelyNewAvailability = false\<close>, so
  \<open>shouldNotify\<close> is false: such a capture never triggers a notification.
\<close>

theorem C9_degenerate_buffers_never_notify:
  assumes "min (length baselineBuffer) (length currentBuffer) < 4"
  shows "totalPixels (performVisualComparison baselineBuffer currentBuffer) = 0 \<and>
    changePercentage (performVisualComparison baselineBuffer currentBuffer) = Fixed_NaN \<and>
    availabilityScore (performVisualComparison baselineBuffer currentBuffer) = Fixed_NaN \<and>
    significantChange (performVisualComparison baselineBuffer currentBuffer) = False \<and>
    likelyNewAvailability (performVisualComparison baselineBuffer currentBuffer) = False \<and>
    shouldNotify (comparisonOf (performVisualComparison baselineBuffer currentBuffer)) = False"
proof -
  have "compareLoop baselineBuffer currentBuffer
          (min (length baselineBuffer) (length currentBuffer)) 0 zeroCounters = zeroCounters"
    using assms by (rule compareLoop_short)
  then show ?thesis
    by (simp add: performVisualComparison_fields comparisonOf_def js_div_def zeroCounters_def)
qed

text \<open>Witness for C9: a baseline of three bytes against a full pixel.\<close>

theorem C9_degenerate_buffers_never_notify_witness:
  "min (length [10, 20, 30 :: byte]) (length [200, 100, 50, 255 :: byte]) < 4 \<and>
   changePercentage (performVisualComparison [10, 20, 30] [200, 100, 50, 255]) = Fixed_NaN \<and>
   significantChange (performVisualComparison [10, 20, 30] [200, 100, 50, 255]) = False \<and>
   likelyNewAvailability (performVisualComparison [10, 20, 30] [200, 100, 50, 255]) = False \<and>
   shouldNotify (comparisonOf (performVisualComparison [10, 20, 30] [200, 100, 50, 255])) = False"
  using C9_degenerate_buffers_never_notify [of "[10, 20, 30]" "[200, 100, 50, 255]"]
  by simp

subsection \<open>One-pixel images\<close>

text \<open>
  C1 as stated fails: for the baseline pixel (255,255,255) and the current pixel (225,225,220)
  the classifier does not report an availability increase of 1, a score of 100 and a
  notification.
\<close>

theorem C1_minimal_trigger_counterexample:
  "\<not> (availabilityIncrease (performVisualComparison [255, 255, 255, 255] [225, 225, 220, 255]) = 1 \<and>
      availabilityScore (performVisualComparison [255, 255, 255, 255] [225, 225, 220, 255]) = Fixed 100 \<and>
      shouldNotify (comparisonOf (performVisualComparison [255, 255, 255, 255] [225, 225, 220, 255])) = True)"
  by (simp add: performVisualComparison_def compareLoop.simps pixelAt_def classifyPixel_def
      colorDiffExceeds30_def zeroCounters_def js_div_def counters.extend_def Let_def)

text \<open>
  C1, amended. For the two one-pixel images of the claim (any alpha bytes) the classifier
  reports \<open>availabilityIncrease = 0\<close>, \<open>availabilityScore = 0.000\<close> and \<open>shouldNotify = false\<close>,
  with \<open>changedPixels = 0\<close> and \<open>dateHighlightChanges = 1\<close>: the near-white baseline pixel
  matches a highlight band, so the changed pair is discarded, and it is a background pixel.
\<close>

theorem C1_white_baseline_discarded:
  "performVisualComparison [255, 255, 255, a] [225, 225, 220, a'] =
     \<lparr>totalPixels = 1, changedPixels = 0, availabilityIncrease = 0,
      dateHighlightChanges = 1, nonAvailabilityChanges = 0,
      changePercentage = Fixed 0, availabilityScore = Fixed 0,
      significantChange = False, likelyNewAvailability = False\<rparr> \<and>
   shouldNotify (comparisonOf (performVisualComparison [255, 255, 255, a] [225, 225, 220, a'])) = False \<and>
   isDateHighlight (255, 255, 255) \<and>
   isBackground (255, 255, 255)"
proof -
  have result: "performVisualComparison [255, 255, 255, a] [225, 225, 220, a'] =
     \<lparr>totalPixels = 1, changedPixels = 0, availabilityIncrease = 0,
      dateHighlightChanges = 1, nonAvailabilityChanges = 0,
      changePercentage = Fixed 0, availabilityScore = Fixed 0,
      significantChange = False, likelyNewAvailability = False\<rparr>"
    by (simp add: performVisualComparison_def compareLoop.simps pixelAt_def classifyPixel_def
        colorDiffExceeds30_def zeroCounters_def js_div_def counters.extend_def Let_def floor_eq_iff)
  show ?thesis
    by (simp add: result comparisonOf_def)
qed

subsection \<open>Comparing a buffer with itself\<close>

text \<open>
  A buffer compared with itself has no changed pixel, so it never notifies; with at least one
  whole pixel the change percentage is \<open>0.000\<close>.
\<close>

lemma self_comparison_never_notifies:
  "changedPixels (performVisualComparison buf buf) = 0 \<and>
   shouldNotify (comparisonOf (performVisualComparison buf buf)) = False"
  by (simp add: performVisualComparison_fields compareLoop_same comparisonOf_def zeroCounters_def)

lemma self_comparison_with_a_pixel:
  "4 \<le> length buf \<Longrightarrow>
     changePercentage (performVisualComparison buf buf) = Fixed 0 \<and>
     availabilityScore (performVisualComparison buf buf) = Fixed 0"
  by (simp add: performVisualComparison_fields compareLoop_same totalPixels_compareLoop
      js_div_def zeroCounters_def floor_eq_iff)

text \<open>
  C3 at the empty buffer: no pixel is sampled, the change percentage is \<open>0 / 0 * 100\<close>, and
  the field holds \<^verbatim>\<open>"NaN"\<close>, not 0. The notification flag is false there as everywhere.
\<close>

theorem C3_empty_buffer_against_itself:
  "changePercentage (performVisualComparison [] []) = Fixed_NaN \<and>
   changePercentage (performVisualComparison [] []) \<noteq> Fixed 0 \<and>
   shouldNotify (comparisonOf (performVisualComparison [] [])) = False"
  by (simp add: performVisualComparison_fields compareLoop.simps comparisonOf_def js_div_def
      zeroCounters_def)

section \<open>Properties of the baseline store and the throttle\<close>

subsection \<open>A period without a baseline\<close>

lemma captureAttempts_success:
  "capture page m = (Inr screenshot, page') \<Longrightarrow>
   captureAttempts capture page m attempt = (Inr screenshot, page')"
  by (subst captureAttempts.simps) simp

text \<open>
  C4. When no baseline is stored for a period, \<open>compareWithBaseline\<close> computes no pixel
  diff (the result carries no metrics), returns \<open>hasBaseline = false\<close>,
  \<open>shouldNotify = false\<close> and \<open>shouldUpdateBaseline = false\<close>, and saves the screenshot as the
  baseline. In the run, processing that period therefore makes exactly one baseline write: the
  trace of writes grows by the one entry for this period, since the loop body does not save
  again.
\<close>

theorem C4_missing_baseline_bootstrap:
  assumes "baselines w (key m) = None"
    and "captureMonthWithRetry capture page m = (Inr screenshot, page')"
  shows "fst (compareWithBaseline w m screenshot) =
           \<lparr>hasBaseline = False, shouldNotify = False, shouldUpdateBaseline = False,
            metrics = None, message = Some (''Baseline created for '' @ name m)\<rparr> \<and>
         processMonth capture w page m =
           (Processed (key m) (name m) (fst (compareWithBaseline w m screenshot)),
            saveBaseline w (key m) screenshot, page') \<and>
         baselineWrites (fst (snd (processMonth capture w page m))) =
           baselineWrites w @ [(key m, screenshot)] \<and>
         baselines (fst (snd (processMonth capture w page m))) (key m) = Some screenshot"
  using assms by (simp add: compareWithBaseline_def processMonth_def saveBaseline_def)

text \<open>
  Witness for C4: an empty store, a browser that delivers a one-pixel screenshot at the first
  attempt, and the period 2025-09.
\<close>

theorem C4_missing_baseline_bootstrap_witness:
  "baselines \<lparr>baselines = Map.empty, baselineWrites = [], notificationLog = NoFile, webhookCalls = []\<rparr>
     (key \<lparr>key = ''2025-09'', name = ''September 2025'', month = 9, year = 2025\<rparr>) = None \<and>
   captureMonthWithRetry (\<lambda>page m. (Inr [1, 2, 3, 4], Suc page)) (0 :: nat)
     \<lparr>key = ''2025-09'', name = ''September 2025'', month = 9, year = 2025\<rparr> = (Inr [1, 2, 3, 4], 1) \<and>
   hasBaseline (fst (compareWithBaseline
     \<lparr>baselines = Map.empty, baselineWrites = [], notificationLog = NoFile, webhookCalls = []\<rparr>
     \<lparr>key = ''2025-09'', name = ''September 2025'', month = 9, year = 2025\<rparr> [1, 2, 3, 4])) = False \<and>
   baselineWrites (fst (snd (processMonth (\<lambda>page m. (Inr [1, 2, 3, 4], Suc page))
     \<lparr>baselines = Map.empty, baselineWrites = [], notificationLog = NoFile, webhookCalls = []\<rparr> (0 :: nat)
     \<lparr>key = ''2025-09'', name = ''September 2025'', month = 9, year = 2025\<rparr>))) =
     [(''2025-09'', [1, 2, 3, 4])]"
proof -
  let ?w = "\<lparr>baselines = Map.empty, baselineWrites = [], notificationLog = NoFile, webhookCalls = []\<rparr>"
  let ?m = "\<lparr>key = ''2025-09'', name = ''September 2025'', month = 9, year = 2025\<rparr>"
  let ?capture = "\<lambda>(page :: nat) (m :: monthData). (Inr [1, 2, 3, 4 :: byte] :: string + buffer, Suc page)"
  have h1: "baselines ?w (key ?m) = None"
    by simp
  have h2: "captureMonthWithRetry ?capture 0 ?m = (Inr [1, 2, 3, 4], 1)"
    by (simp add: captureMonthWithRetry_def captureAttempts_success)
  show ?thesis
    using C4_missing_baseline_bootstrap [OF h1 h2] h1 h2
    by (simp add: saveBaseline_def compareWithBaseline_def)
qed

subsection \<open>The daily cap\<close>

text \<open>
  C5. \<open>checkNotificationLimit\<close> is true exactly when the persisted log holds fewer than 2
  records whose calendar day is today's. So with two records of today it is false; after two
  notifications were logged today it is false; and at an instant of a day that no record
  carries it is true again.
\<close>

theorem C5_throttle_daily_cap:
  "checkNotificationLimit tz now w =
     (length (filter (\<lambda>n. toDateString tz (timestamp n) = toDateString tz now)
                (readNotificationLog (notificationLog w))) < 2) \<and>
   (toDateString tz t1 = toDateString tz now \<and> toDateString tz t2 = toDateString tz now \<and>
    t1 \<le> t2 \<and> t2 - t1 < 7 * 24 * 60 * 60 * 1000 \<longrightarrow>
      checkNotificationLimit tz now (logNotification t2 (logNotification t1 w)) = False) \<and>
   ((\<forall>n \<in> set (readNotificationLog (notificationLog w)).
       toDateString tz (timestamp n) \<noteq> toDateString tz later) \<longrightarrow>
      checkNotificationLimit tz later w = True)"
proof -
  have cap: "checkNotificationLimit tz now w =
     (length (filter (\<lambda>n. toDateString tz (timestamp n) = toDateString tz now)
                (readNotificationLog (notificationLog w))) < 2)"
    by (simp add: checkNotificationLimit_def todayNotifications_def MAX_DAILY_NOTIFICATIONS_def)
  have twice: "checkNotificationLimit tz now (logNotification t2 (logNotification t1 w)) = False"
    if "toDateString tz t1 = toDateString tz now" "toDateString tz t2 = toDateString tz now"
       "t1 \<le> t2" "t2 - t1 < 7 * 24 * 60 * 60 * 1000"
    using that
    by (simp add: checkNotificationLimit_def todayNotifications_def MAX_DAILY_NOTIFICATIONS_def
        logNotification_def Let_def)
  have rollover: "checkNotificationLimit tz later w = True"
    if "\<forall>n \<in> set (readNotificationLog (notificationLog w)).
          toDateString tz (timestamp n) \<noteq> toDateString tz later"
  proof -
    have "filter (\<lambda>n. toDateString tz (timestamp n) = toDateString tz later)
            (readNotificationLog (notificationLog w)) = []"
      using that by (simp add: filter_empty_conv)
    then show ?thesis
      by (simp add: checkNotificationLimit_def todayNotifications_def MAX_DAILY_NOTIFICATIONS_def)
  qed
  show ?thesis
    using cap twice rollover by blast
qed

text \<open>
  Witness for C5, in UTC: two records of day 20000 make the check false for that day; after
  the two notifications were logged it is false; a day later it is true again.
\<close>

theorem C5_throttle_daily_cap_witness:
  "checkNotificationLimit (\<lambda>t. 0) 1728000500000
     \<lparr>baselines = Map.empty, baselineWrites = [],
      notificationLog = Log [\<lparr>timestamp = 1728000100000, type = ''availability_change''\<rparr>,
                             \<lparr>timestamp = 1728000200000, type = ''availability_change''\<rparr>],
      webhookCalls = []\<rparr> = False \<and>
   checkNotificationLimit (\<lambda>t. 0) 1728000500000
     (logNotification 1728000200000 (logNotification 1728000100000
        \<lparr>baselines = Map.empty, baselineWrites = [], notificationLog = NoFile, webhookCalls = []\<rparr>)) = False \<and>
   checkNotificationLimit (\<lambda>t. 0) 1728086400000
     \<lparr>baselines = Map.empty, baselineWrites = [],
      notificationLog = Log [\<lparr>timestamp = 1728000100000, type = ''availability_change''\<rparr>,
                             \<lparr>timestamp = 1728000200000, type = ''availability_change''\<rparr>],
      webhookCalls = []\<rparr> = True"
proof -
  let ?log = "Log [\<lparr>timestamp = 1728000100000, type = ''availability_change''\<rparr>,
                   \<lparr>timestamp = 1728000200000, type = ''availability_change''\<rparr>]"
  let ?w = "\<lparr>baselines = Map.empty, baselineWrites = [], notificationLog = ?log, webhookCalls = []\<rparr>"
  let ?fresh = "\<lparr>baselines = Map.empty, baselineWrites = [], notificationLog = NoFile, webhookCalls = []\<rparr>"
  have a: "checkNotificationLimit (\<lambda>t. 0) 1728000500000 ?w = False"
    using C5_throttle_daily_cap [of "\<lambda>t. 0" 1728000500000 ?w 0 0 0]
    by (simp add: toDateString_def)
  have b: "checkNotificationLimit (\<lambda>t. 0) 1728000500000
             (logNotification 1728000200000 (logNotification 1728000100000 ?fresh)) = False"
    using C5_throttle_daily_cap [of "\<lambda>t. 0" 1728000500000 ?fresh 1728000100000 1728000200000 0]
    by (simp add: toDateString_def)
  have c: "checkNotificationLimit (\<lambda>t. 0) 1728086400000 ?w = True"
    using C5_throttle_daily_cap [of "\<lambda>t. 0" 0 ?w 0 0 1728086400000]
    by (simp add: toDateString_def)
  show ?thesis
    using a b c by simp
qed

subsection \<open>An unreadable log\<close>

text \<open>
  C10. The throttle fails open. When reading the notification log raises (no file) or
  \<^verbatim>\<open>JSON.parse\<close> rejects its text, \<open>checkNotificationLimit\<close> is true, and
  \<open>sendWebhookNotification\<close> then posts the webhook: with a server that answers ok, one more
  notification is delivered, whatever the file held before it became unreadable.
\<close>

theorem C10_throttle_fails_open:
  assumes "notificationLog w = NoFile \<or> notificationLog w = BadJson"
  shows "checkNotificationLimit tz now w = True \<and>
         (fetch env = ResponseOk \<longrightarrow>
            delivered (sendWebhookNotification env run w) = delivered w + 1)"
proof -
  have "readNotificationLog (notificationLog w) = []"
    using assms by auto
  then have open_: "checkNotificationLimit tz' now' w = True" for tz' now'
    by (simp add: checkNotificationLimit_def todayNotifications_def MAX_DAILY_NOTIFICATIONS_def)
  then show ?thesis
    by (simp add: sendWebhookNotification_def delivered_def logNotification_def Let_def)
qed

text \<open>
  Witness for C10: the log with two records of today blocks the notification; the same day
  with the file unparsable, the check passes and the webhook is delivered.
\<close>

theorem C10_throttle_fails_open_witness:
  "checkNotificationLimit (\<lambda>t. 0) 1728000500000
     \<lparr>baselines = Map.empty, baselineWrites = [],
      notificationLog = Log [\<lparr>timestamp = 1728000100000, type = ''availability_change''\<rparr>,
                             \<lparr>timestamp = 1728000200000, type = ''availability_change''\<rparr>],
      webhookCalls = []\<rparr> = False \<and>
   checkNotificationLimit (\<lambda>t. 0) 1728000500000
     \<lparr>baselines = Map.empty, baselineWrites = [], notificationLog = BadJson, webhookCalls = []\<rparr> = True \<and>
   delivered (sendWebhookNotification
     \<lparr>envUsername = None, envPassword = None, doLogin = (\<lambda>u p. Inr (0 :: nat)),
      captureMonth = (\<lambda>page m. (Inl ''timeout'', page)), getMonthsToCheck = [],
      zone = (\<lambda>t. 0), checkTime = 1728000500000, logTime = 1728000500000, fetch = ResponseOk\<rparr>
     \<lparr>totalMonths = 0, changedMonths = [], allResults = []\<rparr>
     \<lparr>baselines = Map.empty, baselineWrites = [], notificationLog = BadJson, webhookCalls = []\<rparr>) = 1"
proof -
  let ?bad = "\<lparr>baselines = Map.empty, baselineWrites = [], notificationLog = BadJson, webhookCalls = []\<rparr>"
  let ?env = "\<lparr>envUsername = None, envPassword = None, doLogin = (\<lambda>(u :: string) (p :: string). Inr (0 :: nat) :: string + nat),
      captureMonth = (\<lambda>(page :: nat) (m :: monthData). (Inl ''timeout'' :: string + buffer, page)), getMonthsToCheck = [],
      zone = (\<lambda>t. 0), checkTime = 1728000500000, logTime = 1728000500000, fetch = ResponseOk\<rparr>"
  have h: "notificationLog ?bad = NoFile \<or> notificationLog ?bad = BadJson"
    by simp
  have blocked: "checkNotificationLimit (\<lambda>t. 0) 1728000500000
     \<lparr>baselines = Map.empty, baselineWrites = [],
      notificationLog = Log [\<lparr>timestamp = 1728000100000, type = ''availability_change''\<rparr>,
                             \<lparr>timestamp = 1728000200000, type = ''availability_change''\<rparr>],
      webhookCalls = []\<rparr> = False"
    by (simp add: checkNotificationLimit_def todayNotifications_def MAX_DAILY_NOTIFICATIONS_def
        toDateString_def)
  show ?thesis
    using C10_throttle_fails_open [OF h, of "\<lambda>t. 0" 1728000500000 ?env
        "\<lparr>totalMonths = 0, changedMonths = [], allResults = []\<rparr>"] blocked
    by (simp add: delivered_def)
qed

section \<open>Properties of the run\<close>

subsection \<open>The loop over the periods\<close>

lemma processMonth_resultMonth:
  "resultMonth (fst (processMonth capture w page m)) = key m"
  by (simp add: processMonth_def split: prod.splits sum.splits)

lemma processMonths_keys:
  "map resultMonth (fst (processMonths capture w page ms)) = map key ms"
proof (induction ms arbitrary: w page)
  case Nil
  show ?case by simp
next
  case (Cons m ms)
  obtain r w1 page1 where step: "processMonth capture w page m = (r, w1, page1)"
    by (cases "processMonth capture w page m") auto
  obtain rs w2 page2 where rest: "processMonths capture w1 page1 ms = (rs, w2, page2)"
    by (cases "processMonths capture w1 page1 ms") auto
  have "resultMonth r = key m"
    using processMonth_resultMonth [of capture w page m] step by simp
  moreover have "map resultMonth rs = map key ms"
    using Cons.IH [of w1 page1] rest by simp
  ultimately show ?case
    using step rest by simp
qed

lemma processMonths_length:
  "length (fst (processMonths capture w page ms)) = length ms"
  using processMonths_keys [of capture w page ms, THEN arg_cong, of length] by simp

lemma processMonths_append:
  "processMonths capture w page (xs @ ys) =
     (case processMonths capture w page xs of
        (rs1, w1, page1) \<Rightarrow>
          (case processMonths capture w1 page1 ys of
             (rs2, w2, page2) \<Rightarrow> (rs1 @ rs2, w2, page2)))"
  by (induction xs arbitrary: w page) (simp_all split: prod.splits)

text \<open>Three failed attempts in a row: the retry loop gives up with the last error.\<close>

lemma captureMonthWithRetry_gives_up:
  assumes "capture page1 m = (Inl e1, page2)"
    and "capture page2 m = (Inl e2, page3)"
    and "capture page3 m = (Inl e3, page4)"
  shows "captureMonthWithRetry capture page1 m = (Inl e3, page4)"
proof -
  have "captureAttempts capture page3 m (Suc (Suc (Suc 0))) = (Inl e3, page4)"
    using assms(3) by (subst captureAttempts.simps) (simp add: maxRetries_def)
  then have "captureAttempts capture page2 m (Suc (Suc 0)) = (Inl e3, page4)"
    using assms(2) by (subst captureAttempts.simps) (simp add: maxRetries_def)
  then have "captureAttempts capture page1 m (Suc 0) = (Inl e3, page4)"
    using assms(1) by (subst captureAttempts.simps) (simp add: maxRetries_def)
  then show ?thesis
    by (simp add: captureMonthWithRetry_def)
qed

lemma processMonth_failed:
  assumes "captureMonthWithRetry capture page m = (Inl err, page')"
  shows "processMonth capture w page m = (Failed (key m) (name m) err, w, page')"
  using assms by (simp add: processMonth_def)

subsection \<open>A period that fails all its retries\<close>

text \<open>
  C8. In a run that got its browser and logged in, let one period fail all three capture
  attempts (navigation is part of the capture). Then that period is recorded as an error
  result with \<open>shouldNotify = false\<close>, the periods before and after it are processed and each
  gives a result, in order, and the response is the success response with \<open>success = true\<close>.
\<close>

theorem C8_partial_failure_isolated:
  assumes "reqMethod req = ''POST''"
    and "withDefault (snowmassUsername req) (envUsername env) = username" and "username \<noteq> []"
    and "withDefault (snowmassPassword req) (envPassword env) = password" and "password \<noteq> []"
    and "doLogin env username password = Inr page0"
    and "getMonthsToCheck env = before @ [m] @ after"
    and "processMonths (captureMonth env) w page0 before = (rs1, w1, page1)"
    and "captureMonth env page1 m = (Inl e1, page2)"
    and "captureMonth env page2 m = (Inl e2, page3)"
    and "captureMonth env page3 m = (Inl e3, page4)"
    and "processMonths (captureMonth env) w1 page4 after = (rs2, w2, page5)"
  shows "fst (handler env req w) =
           MonitorSuccess
             \<lparr>success = True,
              monthsChecked = length (getMonthsToCheck env),
              changedMonthsCount = length (filter resultShouldNotify (rs1 @ rs2)),
              results = rs1 @ [Failed (key m) (name m) e3] @ rs2,
              webhookSent = (length (filter resultShouldNotify (rs1 @ rs2)) > 0)\<rparr> \<and>
         resultShouldNotify (Failed (key m) (name m) e3) = False \<and>
         map resultMonth rs1 = map key before \<and>
         map resultMonth rs2 = map key after"
proof -
  have failed: "processMonth (captureMonth env) w1 page1 m = (Failed (key m) (name m) e3, w1, page4)"
    using assms(9-11) by (simp add: captureMonthWithRetry_gives_up processMonth_failed)
  have all: "processMonths (captureMonth env) w page0 (getMonthsToCheck env) =
               (rs1 @ [Failed (key m) (name m) e3] @ rs2, w2, page5)"
    using assms(7,8,12) failed by (simp add: processMonths_append)
  have keys1: "map resultMonth rs1 = map key before"
    using processMonths_keys [of "captureMonth env" w page0 before] assms(8) by simp
  have keys2: "map resultMonth rs2 = map key after"
    using processMonths_keys [of "captureMonth env" w1 page4 after] assms(12) by simp
  have len: "length rs1 = length before" "length rs2 = length after"
    using keys1 [THEN arg_cong, of length] keys2 [THEN arg_cong, of length] by simp_all
  have "fst (handler env req w) =
           MonitorSuccess
             \<lparr>success = True,
              monthsChecked = length (getMonthsToCheck env),
              changedMonthsCount = length (filter resultShouldNotify (rs1 @ rs2)),
              results = rs1 @ [Failed (key m) (name m) e3] @ rs2,
              webhookSent = (length (filter resultShouldNotify (rs1 @ rs2)) > 0)\<rparr>"
    using assms(1-7) all len by (simp add: handler_def runMonitor_def Let_def)
  then show ?thesis
    using keys1 keys2 by simp
qed

text \<open>
  Witness for C8: three periods on an empty store; the browser cannot reach October 2025 at
  any attempt. September and November get their baselines, October is an error result, and the
  response is the success response.
\<close>

theorem C8_partial_failure_isolated_witness:
  "fst (handler
     \<lparr>envUsername = Some ''user'', envPassword = Some ''secret'',
      doLogin = (\<lambda>u p. Inr (0 :: nat)),
      captureMonth = (\<lambda>page m. (if key m = ''2025-10'' then Inl ''Cannot detect month''
                                   else Inr [1, 2, 3, 4], Suc page)),
      getMonthsToCheck =
        [\<lparr>key = ''2025-09'', name = ''September 2025'', month = 9, year = 2025\<rparr>,
         \<lparr>key = ''2025-10'', name = ''October 2025'', month = 10, year = 2025\<rparr>,
         \<lparr>key = ''2025-11'', name = ''November 2025'', month = 11, year = 2025\<rparr>],
      zone = (\<lambda>t. 0), checkTime = 0, logTime = 0, fetch = ResponseOk\<rparr>
     \<lparr>reqMethod = ''POST'', snowmassUsername = None, snowmassPassword = None\<rparr>
     \<lparr>baselines = Map.empty, baselineWrites = [], notificationLog = NoFile, webhookCalls = []\<rparr>) =
   MonitorSuccess
     \<lparr>success = True, monthsChecked = 3, changedMonthsCount = 0,
      results =
        [Processed ''2025-09'' ''September 2025''
           \<lparr>hasBaseline = False, shouldNotify = False, shouldUpdateBaseline = False,
            metrics = None, message = Some ''Baseline created for September 2025''\<rparr>,
         Failed ''2025-10'' ''October 2025'' ''Cannot detect month'',
         Processed ''2025-11'' ''November 2025''
           \<lparr>hasBaseline = False, shouldNotify = False, shouldUpdateBaseline = False,
            metrics = None, message = Some ''Baseline created for November 2025''\<rparr>],
      webhookSent = False\<rparr>"
proof -
  let ?sep = "\<lparr>key = ''2025-09'', name = ''September 2025'', month = 9, year = 2025\<rparr>"
  let ?oct = "\<lparr>key = ''2025-10'', name = ''October 2025'', month = 10, year = 2025\<rparr>"
  let ?nov = "\<lparr>key = ''2025-11'', name = ''November 2025'', month = 11, year = 2025\<rparr>"
  let ?capture = "\<lambda>(page :: nat) (m :: monthData).
      (if key m = ''2025-10'' then Inl ''Cannot detect month'' else Inr [1, 2, 3, 4 :: byte], Suc page)"
  let ?env = "\<lparr>envUsername = Some ''user'', envPassword = Some ''secret'',
      doLogin = (\<lambda>(u :: string) (p :: string). Inr (0 :: nat) :: string + nat),
      captureMonth = ?capture, getMonthsToCheck = [?sep, ?oct, ?nov],
      zone = (\<lambda>t. 0), checkTime = 0, logTime = 0, fetch = ResponseOk\<rparr>"
  let ?req = "\<lparr>reqMethod = ''POST'', snowmassUsername = None, snowmassPassword = None\<rparr>"
  let ?w = "\<lparr>baselines = Map.empty, baselineWrites = [], notificationLog = NoFile, webhookCalls = []\<rparr>"
  let ?created = "\<lambda>n. \<lparr>hasBaseline = False, shouldNotify = False, shouldUpdateBaseline = False,
      metrics = None, message = Some (''Baseline created for '' @ n)\<rparr>"
  let ?w1 = "saveBaseline ?w ''2025-09'' [1, 2, 3, 4]"
  let ?w2 = "saveBaseline ?w1 ''2025-11'' [1, 2, 3, 4]"
  have h1: "reqMethod ?req = ''POST''" by simp
  have h2: "withDefault (snowmassUsername ?req) (envUsername ?env) = ''user''" by simp
  have h3: "''user'' \<noteq> []" by simp
  have h4: "withDefault (snowmassPassword ?req) (envPassword ?env) = ''secret''" by simp
  have h5: "''secret'' \<noteq> []" by simp
  have h6: "doLogin ?env ''user'' ''secret'' = Inr 0" by simp
  have h7: "getMonthsToCheck ?env = [?sep] @ [?oct] @ [?nov]" by simp
  have h8: "processMonths (captureMonth ?env) ?w 0 [?sep] =
              ([Processed ''2025-09'' ''September 2025'' (?created ''September 2025'')], ?w1, 1)"
    by (simp add: processMonth_def captureMonthWithRetry_def captureAttempts.simps
        compareWithBaseline_def saveBaseline_def)
  have h9: "captureMonth ?env 1 ?oct = (Inl ''Cannot detect month'', 2)" by simp
  have h10: "captureMonth ?env 2 ?oct = (Inl ''Cannot detect month'', 3)" by simp
  have h11: "captureMonth ?env 3 ?oct = (Inl ''Cannot detect month'', 4)" by simp
  have h12: "processMonths (captureMonth ?env) ?w1 4 [?nov] =
              ([Processed ''2025-11'' ''November 2025'' (?created ''November 2025'')], ?w2, 5)"
    by (simp add: processMonth_def captureMonthWithRetry_def captureAttempts.simps
        compareWithBaseline_def saveBaseline_def)
  show ?thesis
    using C8_partial_failure_isolated [OF h1 h2 h3 h4 h5 h6 h7 h8 h9 h10 h11 h12]
    by simp
qed

subsection \<open>The webhookSent field\<close>

lemma one_pixel_trigger:
  "performVisualComparison [100, 100, 100, a] [230, 225, 195, a'] =
     \<lparr>totalPixels = 1, changedPixels = 1, availabilityIncrease = 1,
      dateHighlightChanges = 0, nonAvailabilityChanges = 0,
      changePercentage = Fixed 100, availabilityScore = Fixed 100,
      significantChange = True, likelyNewAvailability = True\<rparr>"
  by (simp add: performVisualComparison_def compareLoop.simps pixelAt_def classifyPixel_def
      colorDiffExceeds30_def zeroCounters_def js_div_def counters.extend_def Let_def floor_eq_iff)

text \<open>
  In the success response \<open>webhookSent\<close> says that some period was notable, nothing more.
\<close>

lemma handler_webhookSent:
  assumes "handler env req w = (MonitorSuccess body, w')"
  shows "webhookSent body = (\<exists>r \<in> set (results body). resultShouldNotify r)"
  using assms
  by (auto simp: handler_def runMonitor_def Let_def filter_empty_conv
      split: if_splits prod.splits sum.splits)

text \<open>
  C2 at a run the throttle stops. The store holds a baseline for September 2025, the capture
  shows new availability, and the log already holds two notifications of today. The response
  says \<open>webhookSent = true\<close>, yet no webhook request was made and none was delivered.
\<close>

theorem C2_webhookSent_without_delivery:
  "fst (handler
     \<lparr>envUsername = Some ''user'', envPassword = Some ''secret'',
      doLogin = (\<lambda>u p. Inr (0 :: nat)),
      captureMonth = (\<lambda>page m. (Inr [230, 225, 195, 255], Suc page)),
      getMonthsToCheck = [\<lparr>key = ''2025-09'', name = ''September 2025'', month = 9, year = 2025\<rparr>],
      zone = (\<lambda>t. 0), checkTime = 1728000500000, logTime = 1728000500000, fetch = ResponseOk\<rparr>
     \<lparr>reqMethod = ''POST'', snowmassUsername = None, snowmassPassword = None\<rparr>
     \<lparr>baselines = [''2025-09'' \<mapsto> [100, 100, 100, 255]], baselineWrites = [],
      notificationLog = Log [\<lparr>timestamp = 1728000100000, type = ''availability_change''\<rparr>,
                             \<lparr>timestamp = 1728000200000, type = ''availability_change''\<rparr>],
      webhookCalls = []\<rparr>) =
   MonitorSuccess
     \<lparr>success = True, monthsChecked = 1, changedMonthsCount = 1,
      results =
        [Processed ''2025-09'' ''September 2025''
           \<lparr>hasBaseline = True, shouldNotify = True, shouldUpdateBaseline = True,
            metrics = Some
              \<lparr>totalPixels = 1, changedPixels = 1, availabilityIncrease = 1,
               dateHighlightChanges = 0, nonAvailabilityChanges = 0,
               changePercentage = Fixed 100, availabilityScore = Fixed 100,
               significantChange = True, likelyNewAvailability = True\<rparr>,
            message = None\<rparr>],
      webhookSent = True\<rparr> \<and>
   webhookCalls (snd (handler
     \<lparr>envUsername = Some ''user'', envPassword = Some ''secret'',
      doLogin = (\<lambda>u p. Inr (0 :: nat)),
      captureMonth = (\<lambda>page m. (Inr [230, 225, 195, 255], Suc page)),
      getMonthsToCheck = [\<lparr>key = ''2025-09'', name = ''September 2025'', month = 9, year = 2025\<rparr>],
      zone = (\<lambda>t. 0), checkTime = 1728000500000, logTime = 1728000500000, fetch = ResponseOk\<rparr>
     \<lparr>reqMethod = ''POST'', snowmassUsername = None, snowmassPassword = None\<rparr>
     \<lparr>baselines = [''2025-09'' \<mapsto> [100, 100, 100, 255]], baselineWrites = [],
      notificationLog = Log [\<lparr>timestamp = 1728000100000, type = ''availability_change''\<rparr>,
                             \<lparr>timestamp = 1728000200000, type = ''availability_change''\<rparr>],
      webhookCalls = []\<rparr>)) = []"
  by (simp add: handler_def runMonitor_def processMonth_def captureMonthWithRetry_def
      captureAttempts.simps compareWithBaseline_def comparisonOf_def one_pixel_trigger
      saveBaseline_def sendWebhookNotification_def checkNotificationLimit_def
      todayNotifications_def MAX_DAILY_NOTIFICATIONS_def toDateString_def Let_def)

section \<open>Properties of the navigation confidence\<close>

lemma confidenceOf_weightedSum:
  "confidenceOf hasMonth hasYear hasPattern n = clamp01 (weightedSum hasMonth hasYear hasPattern n)"
  by (cases hasMonth; cases hasYear; cases hasPattern)
     (simp_all add: confidenceOf_def weightedSum_def clamp01_def Let_def)

text \<open>The equations that evaluate the text analysis on a literal text.\<close>

lemmas text_eval = hasExpectedMonth_def hasExpectedYear_def hasExactPattern_def otherMonths_def
  toLowerCase_def lowerChar_def toString.simps monthYearPatterns_def monthNames_def isSpace_def
  spaces0_def units_def

lemma table_text:
  "t \<noteq> [] \<Longrightarrow>
   fst (extractText (\<lambda>selector. if selector = ''table'' then Some t else None)
          calendarSelectors ([], [])) = t"
  by (simp add: calendarSelectors_def)

lemma confidence_from_signals:
  assumes "fst (extractText textContent calendarSelectors ([], [])) = t"
    and "hasExpectedMonth t expectedMonth = hasMonth"
    and "hasExpectedYear t expectedYear = hasYear"
    and "hasExactPattern t expectedMonth expectedYear = hasPattern"
    and "length (otherMonths t expectedMonth) = n"
  shows "confidence (validateMonthWithTextExtraction textContent expectedMonth expectedYear) =
           confidenceOf hasMonth hasYear hasPattern n"
proof -
  obtain extracted selector where
    ex: "extractText textContent calendarSelectors ([], []) = (extracted, selector)"
    by (cases "extractText textContent calendarSelectors ([], [])") auto
  then show ?thesis
    using assms by (simp add: validateMonthWithTextExtraction_def)
qed

text \<open>The signals of the plain text \<open>September 2025\<close> and of the text with three more months.\<close>

lemma plain_signals:
  "units ''September 2025'' \<noteq> []"
  "hasExpectedMonth (units ''September 2025'') (units ''september'') = True"
  "hasExpectedYear (units ''September 2025'') 2025 = True"
  "hasExactPattern (units ''September 2025'') (units ''september'') 2025 = True"
  "length (otherMonths (units ''September 2025'') (units ''september'')) = 0"
  by (simp_all add: text_eval)

lemma crowded_signals:
  "units ''September 2025 October November December'' \<noteq> []"
  "hasExpectedMonth (units ''September 2025 October November December'') (units ''september'') = True"
  "hasExpectedYear (units ''September 2025 October November December'') 2025 = True"
  "hasExactPattern (units ''September 2025 October November December'') (units ''september'') 2025 = True"
  "length (otherMonths (units ''September 2025 October November December'') (units ''september'')) = 3"
  by (simp_all add: text_eval)

lemma confidence_plain:
  "confidence (validateMonthWithTextExtraction
     (\<lambda>selector. if selector = ''table'' then Some (units ''September 2025'') else None)
     (units ''september'') 2025) = 1"
  using confidence_from_signals [OF table_text [OF plain_signals(1)] plain_signals(2-5)]
  by (simp add: confidenceOf_def)

lemma confidence_crowded:
  "confidence (validateMonthWithTextExtraction
     (\<lambda>selector. if selector = ''table''
        then Some (units ''September 2025 October November December'') else None)
     (units ''september'') 2025) = 0.8"
  using confidence_from_signals [OF table_text [OF crowded_signals(1)] crowded_signals(2-5)]
  by (simp add: confidenceOf_def)

text \<open>
  C6 as stated fails in its last clause. The table reads \<open>September 2025\<close> and the confidence
  for September 2025 is 1.0; with October, November and December in the text as well it is
  0.8. The confidence is reduced by 0.2, not by at least 0.3.
\<close>

theorem C6_three_other_months_counterexample:
  "\<not> (confidence (validateMonthWithTextExtraction
          (\<lambda>selector. if selector = ''table''
             then Some (units ''September 2025 October November December'') else None)
          (units ''september'') 2025)
        \<le> confidence (validateMonthWithTextExtraction
            (\<lambda>selector. if selector = ''table'' then Some (units ''September 2025'') else None)
            (units ''september'') 2025) - 0.3)"
  by (simp add: confidence_plain confidence_crowded)

text \<open>
  C6, amended. The confidence that \<open>validateMonthWithTextExtraction\<close> returns is the weighted
  sum of the specification (0.4 for the month, 0.3 for the year, 0.4 for an exact month and
  year pattern, 0.2 when no other month name occurs, minus 0.3 when more than two occur),
  clamped to the unit interval. A text with the month, the year, an exact pattern and no other
  month name gives 1.0. A text with the month, the year, an exact pattern and more than two
  other month names gives 0.8, so between two such texts the returned confidence is reduced
  by 0.2.
\<close>

theorem C6_confidence_clamped_sum:
  fixes textContent textContent' :: "string \<Rightarrow> jsstring option"
    and expectedMonth :: jsstring and expectedYear :: nat
  defines "allText \<equiv> fst (extractText textContent calendarSelectors ([], []))"
    and "result \<equiv> validateMonthWithTextExtraction textContent expectedMonth expectedYear"
    and "allText' \<equiv> fst (extractText textContent' calendarSelectors ([], []))"
    and "result' \<equiv> validateMonthWithTextExtraction textContent' expectedMonth expectedYear"
  shows "confidence result =
           clamp01 (weightedSum (hasExpectedMonth allText expectedMonth)
                      (hasExpectedYear allText expectedYear)
                      (hasExactPattern allText expectedMonth expectedYear)
                      (length (otherMonths allText expectedMonth))) \<and>
         0 \<le> confidence result \<and> confidence result \<le> 1 \<and>
         (hasExpectedMonth allText expectedMonth \<and> hasExpectedYear allText expectedYear \<and>
          hasExactPattern allText expectedMonth expectedYear \<and>
          otherMonths allText expectedMonth = [] \<longrightarrow>
            confidence result = 1) \<and>
         (hasExpectedMonth allText' expectedMonth \<and> hasExpectedYear allText' expectedYear \<and>
          hasExactPattern allText' expectedMonth expectedYear \<and>
          2 < length (otherMonths allText' expectedMonth) \<longrightarrow>
            confidence result' = 0.8) \<and>
         (hasExpectedMonth allText expectedMonth \<and> hasExpectedYear allText expectedYear \<and>
          hasExactPattern allText expectedMonth expectedYear \<and>
          otherMonths allText expectedMonth = [] \<and>
          hasExpectedMonth allText' expectedMonth \<and> hasExpectedYear allText' expectedYear \<and>
          hasExactPattern allText' expectedMonth expectedYear \<and>
          2 < length (otherMonths allText' expectedMonth) \<longrightarrow>
            confidence result - confidence result' = 0.2)"
proof -
  have sum_of: "confidence (validateMonthWithTextExtraction tc expectedMonth expectedYear) =
      clamp01 (weightedSum
        (hasExpectedMonth (fst (extractText tc calendarSelectors ([], []))) expectedMonth)
        (hasExpectedYear (fst (extractText tc calendarSelectors ([], []))) expectedYear)
        (hasExactPattern (fst (extractText tc calendarSelectors ([], []))) expectedMonth expectedYear)
        (length (otherMonths (fst (extractText tc calendarSelectors ([], []))) expectedMonth)))"
    for tc
  proof -
    obtain extracted selector where
      ex: "extractText tc calendarSelectors ([], []) = (extracted, selector)"
      by (cases "extractText tc calendarSelectors ([], [])") auto
    then show ?thesis
      by (simp add: validateMonthWithTextExtraction_def confidenceOf_weightedSum)
  qed
  have sum: "confidence result =
           clamp01 (weightedSum (hasExpectedMonth allText expectedMonth)
                      (hasExpectedYear allText expectedYear)
                      (hasExactPattern allText expectedMonth expectedYear)
                      (length (otherMonths allText expectedMonth)))"
    using sum_of [of textContent] by (simp add: result_def allText_def)
  have sum': "confidence result' =
           clamp01 (weightedSum (hasExpectedMonth allText' expectedMonth)
                      (hasExpectedYear allText' expectedYear)
                      (hasExactPattern allText' expectedMonth expectedYear)
                      (length (otherMonths allText' expectedMonth)))"
    using sum_of [of textContent'] by (simp add: result'_def allText'_def)
  have range: "0 \<le> confidence result" "confidence result \<le> 1"
    using sum by (simp_all add: clamp01_def)
  have one: "confidence result = 1"
    if "hasExpectedMonth allText expectedMonth" "hasExpectedYear allText expectedYear"
       "hasExactPattern allText expectedMonth expectedYear" "otherMonths allText expectedMonth = []"
    using that sum by (simp add: weightedSum_def clamp01_def)
  have crowded: "confidence result' = 0.8"
    if "hasExpectedMonth allText' expectedMonth" "hasExpectedYear allText' expectedYear"
       "hasExactPattern allText' expectedMonth expectedYear"
       "2 < length (otherMonths allText' expectedMonth)"
  proof -
    have "otherMonths allText' expectedMonth \<noteq> []"
      using that(4) by auto
    then show ?thesis
      using that sum' by (simp add: weightedSum_def clamp01_def)
  qed
  have diff: "confidence result - confidence result' = 0.2"
    if "confidence result = 1" "confidence result' = 0.8"
    using that by simp
  show ?thesis
    using sum range one crowded diff by blast
qed

text \<open>
  Witness for C6: the calendar table reads \<open>September 2025\<close> and the confidence for September
  2025 is 1.0; with October, November and December in the text as well it is 0.8, and the
  difference is 0.2. The other signals count as the sum says: with U+00A0 between month and
  year the pattern still matches and the confidence is 1.0; \<open>2025: September\<close> has the month
  and the year but no exact pattern and gives 0.9; \<open>September\<close> alone gives 0.6; \<open>October
  2024\<close> gives 0.
\<close>

theorem C6_confidence_clamped_sum_witness:
  "confidence (validateMonthWithTextExtraction
     (\<lambda>selector. if selector = ''table'' then Some (units ''September 2025'') else None)
     (units ''september'') 2025) = 1 \<and>
   confidence (validateMonthWithTextExtraction
     (\<lambda>selector. if selector = ''table''
        then Some (units ''September 2025 October November December'') else None)
     (units ''september'') 2025) = 0.8 \<and>
   confidence (validateMonthWithTextExtraction
     (\<lambda>selector. if selector = ''table'' then Some (units ''September 2025'') else None)
     (units ''september'') 2025) -
   confidence (validateMonthWithTextExtraction
     (\<lambda>selector. if selector = ''table''
        then Some (units ''September 2025 October November December'') else None)
     (units ''september'') 2025) = 0.2 \<and>
   confidence (validateMonthWithTextExtraction
     (\<lambda>selector. if selector = ''table'' then Some (units ''September'' @ [160] @ units ''2025'') else None)
     (units ''september'') 2025) = 1 \<and>
   confidence (validateMonthWithTextExtraction
     (\<lambda>selector. if selector = ''table'' then Some (units ''2025: September'') else None)
     (units ''september'') 2025) = 0.9 \<and>
   confidence (validateMonthWithTextExtraction
     (\<lambda>selector. if selector = ''table'' then Some (units ''September'') else None)
     (units ''september'') 2025) = 0.6 \<and>
   confidence (validateMonthWithTextExtraction
     (\<lambda>selector. if selector = ''table'' then Some (units ''October 2024'') else None)
     (units ''september'') 2025) = 0"
proof -
  let ?plain = "\<lambda>selector. if selector = ''table'' then Some (units ''September 2025'') else None"
  let ?crowded = "\<lambda>selector. if selector = ''table''
                    then Some (units ''September 2025 October November December'') else None"
  note t1 = table_text [OF plain_signals(1)]
  note t2 = table_text [OF crowded_signals(1)]
  have p4: "otherMonths (units ''September 2025'') (units ''september'') = []"
    using plain_signals(5) by simp
  have c4: "2 < length (otherMonths (units ''September 2025 October November December'')
                          (units ''september''))"
    using crowded_signals(5) by simp
  have main: "confidence (validateMonthWithTextExtraction ?plain (units ''september'') 2025) = 1 \<and>
      confidence (validateMonthWithTextExtraction ?crowded (units ''september'') 2025) = 0.8 \<and>
      confidence (validateMonthWithTextExtraction ?plain (units ''september'') 2025) -
      confidence (validateMonthWithTextExtraction ?crowded (units ''september'') 2025) = 0.2"
    using C6_confidence_clamped_sum [of ?plain "units ''september''" 2025 ?crowded, unfolded t1 t2]
      plain_signals(2-4) p4 crowded_signals(2-4) c4
    by blast
  have nbsp_signals:
    "units ''September'' @ [160] @ units ''2025'' \<noteq> []"
    "hasExpectedMonth (units ''September'' @ [160] @ units ''2025'') (units ''september'') = True"
    "hasExpectedYear (units ''September'' @ [160] @ units ''2025'') 2025 = True"
    "hasExactPattern (units ''September'' @ [160] @ units ''2025'') (units ''september'') 2025 = True"
    "length (otherMonths (units ''September'' @ [160] @ units ''2025'') (units ''september'')) = 0"
    by (simp_all add: text_eval)
  have nbsp: "confidence (validateMonthWithTextExtraction
     (\<lambda>selector. if selector = ''table'' then Some (units ''September'' @ [160] @ units ''2025'') else None)
     (units ''september'') 2025) = 1"
    using confidence_from_signals [OF table_text [OF nbsp_signals(1)] nbsp_signals(2-5)]
    by (simp add: confidenceOf_def)
  have apart_signals:
    "units ''2025: September'' \<noteq> []"
    "hasExpectedMonth (units ''2025: September'') (units ''september'') = True"
    "hasExpectedYear (units ''2025: September'') 2025 = True"
    "hasExactPattern (units ''2025: September'') (units ''september'') 2025 = False"
    "length (otherMonths (units ''2025: September'') (units ''september'')) = 0"
    by (simp_all add: text_eval)
  have apart: "confidence (validateMonthWithTextExtraction
     (\<lambda>selector. if selector = ''table'' then Some (units ''2025: September'') else None)
     (units ''september'') 2025) = 0.9"
    using confidence_from_signals [OF table_text [OF apart_signals(1)] apart_signals(2-5)]
    by (simp add: confidenceOf_def)
  have month_signals:
    "units ''September'' \<noteq> []"
    "hasExpectedMonth (units ''September'') (units ''september'') = True"
    "hasExpectedYear (units ''September'') 2025 = False"
    "hasExactPattern (units ''September'') (units ''september'') 2025 = False"
    "length (otherMonths (units ''September'') (units ''september'')) = 0"
    by (simp_all add: text_eval)
  have month_only: "confidence (validateMonthWithTextExtraction
     (\<lambda>selector. if selector = ''table'' then Some (units ''September'') else None)
     (units ''september'') 2025) = 0.6"
    using confidence_from_signals [OF table_text [OF month_signals(1)] month_signals(2-5)]
    by (simp add: confidenceOf_def)
  have other_signals:
    "units ''October 2024'' \<noteq> []"
    "hasExpectedMonth (units ''October 2024'') (units ''september'') = False"
    "hasExpectedYear (units ''October 2024'') 2025 = False"
    "hasExactPattern (units ''October 2024'') (units ''september'') 2025 = False"
    "length (otherMonths (units ''October 2024'') (units ''september'')) = 1"
    by (simp_all add: text_eval)
  have elsewhere: "confidence (validateMonthWithTextExtraction
     (\<lambda>selector. if selector = ''table'' then Some (units ''October 2024'') else None)
     (units ''september'') 2025) = 0"
    using confidence_from_signals [OF table_text [OF other_signals(1)] other_signals(2-5)]
    by (simp add: confidenceOf_def)
  show ?thesis
    using main nbsp apart month_only elsewhere by blast
qed

end
